theory Spec2Isabelle
  imports Main "HOL-Library.Word"
begin

section \<open>zlog: a pair of zap loggers built from functional options\<close>

text \<open>
  The embedding follows \<^verbatim>\<open>src/zlog/zlog.go\<close> and \<^verbatim>\<open>src/zlog/options.go\<close>.
  Go structs are records, Go interface and pointer values that may be \<^verbatim>\<open>nil\<close> are
  \<open>option\<close> values (\<open>None\<close> is \<^verbatim>\<open>nil\<close>), the function type \<^verbatim>\<open>Option\<close> is a function on
  the build configuration, and the effects of flushing are threaded through an explicit
  state. Go's \<^verbatim>\<open>int\<close> is only compared with zero and stored, never computed with, so it is
  modelled as \<open>int\<close>.
\<close>

subsection \<open>Values of the collaborators (zap, zapcore, lumberjack)\<close>

text \<open>
  \<^verbatim>\<open>zapcore.Level\<close> is an \<^verbatim>\<open>int8\<close>: an 8-bit word read as signed (\<open>sint\<close>). The named
  levels have zapcore's values.
\<close>

type_synonym Level = "8 word"

definition zapcore_DebugLevel :: Level where
  "zapcore_DebugLevel = - 1"

definition zapcore_InfoLevel :: Level where
  "zapcore_InfoLevel = 0"

definition zapcore_WarnLevel :: Level where
  "zapcore_WarnLevel = 1"

definition zapcore_ErrorLevel :: Level where
  "zapcore_ErrorLevel = 2"

text \<open>\<^verbatim>\<open>zap.AtomicLevel\<close>: a cell created by \<^verbatim>\<open>zap.NewAtomicLevelAt\<close> holding a level.\<close>

datatype AtomicLevel = NewAtomicLevelAt (Level_of: Level)

text \<open>
  The encoder functions of \<^verbatim>\<open>zapcore.EncoderConfig\<close> are function values; the ones the
  source names are constructors, \<^verbatim>\<open>nil\<close> and any other function are kept apart.
\<close>

datatype LevelEncoder = NilLevelEncoder | CapitalLevelEncoder | OtherLevelEncoder nat

datatype TimeEncoder = NilTimeEncoder | ISO8601TimeEncoder | OtherTimeEncoder nat

datatype DurationEncoder = NilDurationEncoder | SecondsDurationEncoder | OtherDurationEncoder nat

datatype CallerEncoder = NilCallerEncoder | ShortCallerEncoder | OtherCallerEncoder nat

record EncoderConfig =
  MessageKey :: string
  LevelKey :: string
  TimeKey :: string
  NameKey :: string
  CallerKey :: string
  FunctionKey :: string
  StacktraceKey :: string
  SkipLineEnding :: bool
  LineEnding :: string
  EncodeLevel :: LevelEncoder
  EncodeTime :: TimeEncoder
  EncodeDuration :: DurationEncoder
  EncodeCaller :: CallerEncoder
  ConsoleSeparator :: string

definition zapcore_DefaultLineEnding :: string where
  "zapcore_DefaultLineEnding = [CHR 0x0A]"

text \<open>
  \<^verbatim>\<open>zap.Option\<close>: the two options the source itself passes, and any other option a caller
  may supply.
\<close>

datatype zapOption = AddCaller | AddStacktrace Level | OtherOption nat

text \<open>The configuration of \<^verbatim>\<open>lumberjack.Logger\<close>, the rotation collaborator.\<close>

record lumberjack_Logger =
  lj_Filename :: string
  lj_MaxSize :: int
  lj_MaxBackups :: int
  lj_MaxAge :: int
  lj_Compress :: bool

datatype stream = Stdout | Stderr

text \<open>
  A non-nil \<^verbatim>\<open>zapcore.WriteSyncer\<close>, by the call that made it:
  \<^verbatim>\<open>zapcore.AddSync(io.Discard)\<close>, \<^verbatim>\<open>zapcore.AddSync(&lumberjack.Logger{...})\<close>,
  \<^verbatim>\<open>zapcore.AddSync(os.Stdout)\<close> or \<^verbatim>\<open>zapcore.AddSync(os.Stderr)\<close>, and
  \<^verbatim>\<open>zapcore.NewMultiWriteSyncer(ws1, ws2)\<close>.
\<close>

datatype WriteSyncer =
    AddSync_Discard
  | AddSync_Lumberjack lumberjack_Logger
  | AddSync_File stream
  | NewMultiWriteSyncer WriteSyncer WriteSyncer

text \<open>
  \<^verbatim>\<open>zapcore.NewCore(zapcore.NewJSONEncoder(encCfg), ws, lvl)\<close> and
  \<^verbatim>\<open>zap.New(core, opts...)\<close> are recorded by their arguments.
\<close>

record Core =
  coreEnc :: EncoderConfig
  coreOut :: "WriteSyncer option"
  coreLevel :: AtomicLevel

record Logger =
  core :: Core
  options :: "zapOption list"

definition zap_New :: "Core \<Rightarrow> zapOption list \<Rightarrow> Logger" where
  "zap_New c opts = \<lparr>core = c, options = opts\<rparr>"

text \<open>
  A Go \<^verbatim>\<open>error\<close> value of a collaborator: a plain failure with its message, or two
  failures joined by the collaborator. \<open>errorMessage\<close> is its \<^verbatim>\<open>Error()\<close> method.
\<close>

datatype goerror = GoError string | Joined goerror goerror

fun errorMessage :: "goerror \<Rightarrow> string" where
  "errorMessage (GoError m) = m"
| "errorMessage (Joined a b) = errorMessage a @ ''; '' @ errorMessage b"

subsection \<open>The types of \<^verbatim>\<open>zlog.go\<close>\<close>

record Pair =
  Access :: "Logger option"
  Error :: "Logger option"
  AccessLevel :: AtomicLevel
  ErrorLevel :: AtomicLevel

record rotateCfg =
  Path :: string
  MaxSizeMB :: int
  MaxBackups :: int
  MaxAgeDays :: int
  Compress :: bool

record buildCfg =
  access :: rotateCfg
  error :: rotateCfg
  consoleStdout :: bool
  consoleStderr :: bool
  enc :: EncoderConfig
  zapOpts :: "zapOption list"
  initialAccessLevel :: Level
  initialErrorLevel :: Level

record syncError =
  errs :: "goerror list"

subsection \<open>\<^verbatim>\<open>Pair.Sync\<close> and \<^verbatim>\<open>syncError\<close>\<close>

text \<open>
  \<^verbatim>\<open>(*zap.Logger).Sync\<close> belongs to zap: it is the parameter \<open>lsync\<close>, a state transformer
  on some state \<open>'w\<close> of the outside world that also reports \<^verbatim>\<open>nil\<close> or a failure.
  \<^verbatim>\<open>Pair.Sync\<close> returns \<^verbatim>\<open>nil\<close> or a \<^verbatim>\<open>*syncError\<close>, and the world after its calls.
\<close>

definition Sync :: "(Logger \<Rightarrow> 'w \<Rightarrow> goerror option \<times> 'w) \<Rightarrow> Pair \<Rightarrow> 'w \<Rightarrow> syncError option \<times> 'w" where
  "Sync lsync p w0 =
    (let (errs0, w1) =
           (case Access p of
              None \<Rightarrow> ([], w0)
            | Some a \<Rightarrow>
                (case lsync a w0 of
                   (None, w) \<Rightarrow> ([], w)
                 | (Some err, w) \<Rightarrow> ([] @ [err], w)));
         (errs1, w2) =
           (case Error p of
              None \<Rightarrow> (errs0, w1)
            | Some e \<Rightarrow>
                (case lsync e w1 of
                   (None, w) \<Rightarrow> (errs0, w)
                 | (Some err, w) \<Rightarrow> (errs0 @ [err], w)))
     in if length errs1 > 0 then (Some \<lparr>errs = errs1\<rparr>, w2) else (None, w2))"

definition syncError_Error :: "syncError \<Rightarrow> string" where
  "syncError_Error e =
    (if length (errs e) = 1 then errorMessage (errs e ! 0)
     else ''multiple sync errors occurred'')"

definition syncError_Unwrap :: "syncError \<Rightarrow> goerror list" where
  "syncError_Unwrap e = errs e"

subsection \<open>Writers\<close>

definition defaultEncoder :: EncoderConfig where
  "defaultEncoder =
    \<lparr>MessageKey = ''msg'', LevelKey = ''level'', TimeKey = ''ts'', NameKey = '''',
     CallerKey = '''', FunctionKey = '''', StacktraceKey = '''', SkipLineEnding = False,
     LineEnding = zapcore_DefaultLineEnding,
     EncodeLevel = CapitalLevelEncoder, EncodeTime = ISO8601TimeEncoder,
     EncodeDuration = SecondsDurationEncoder, EncodeCaller = ShortCallerEncoder,
     ConsoleSeparator = ''''\<rparr>"

definition newRotateWriter :: "rotateCfg \<Rightarrow> WriteSyncer option" where
  "newRotateWriter c =
    (if Path c = '''' then Some AddSync_Discard
     else Some (AddSync_Lumberjack
       \<lparr>lj_Filename = Path c, lj_MaxSize = MaxSizeMB c, lj_MaxBackups = MaxBackups c,
        lj_MaxAge = MaxAgeDays c, lj_Compress = Compress c\<rparr>))"

definition makeCore :: "EncoderConfig \<Rightarrow> WriteSyncer option \<Rightarrow> AtomicLevel \<Rightarrow> Core" where
  "makeCore encCfg ws lvl = \<lparr>coreEnc = encCfg, coreOut = ws, coreLevel = lvl\<rparr>"

fun tee :: "WriteSyncer option \<Rightarrow> WriteSyncer option \<Rightarrow> WriteSyncer option" where
  "tee None ws2 = ws2"
| "tee (Some ws1) None = Some ws1"
| "tee (Some ws1) (Some ws2) = Some (NewMultiWriteSyncer ws1 ws2)"

subsection \<open>Options (\<^verbatim>\<open>options.go\<close>)\<close>

type_synonym Option = "buildCfg \<Rightarrow> buildCfg"

definition WithAccessFile :: "string \<Rightarrow> int \<Rightarrow> int \<Rightarrow> int \<Rightarrow> bool \<Rightarrow> Option" where
  "WithAccessFile path maxSizeMB maxBackups maxAgeDays compress = (\<lambda>c.
    let maxSizeMB = (if maxSizeMB < 0 then 0 else maxSizeMB);
        maxBackups = (if maxBackups < 0 then 0 else maxBackups);
        maxAgeDays = (if maxAgeDays < 0 then 0 else maxAgeDays)
    in c\<lparr>access := \<lparr>Path = path, MaxSizeMB = maxSizeMB, MaxBackups = maxBackups,
                     MaxAgeDays = maxAgeDays, Compress = compress\<rparr>\<rparr>)"

definition WithErrorFile :: "string \<Rightarrow> int \<Rightarrow> int \<Rightarrow> int \<Rightarrow> bool \<Rightarrow> Option" where
  "WithErrorFile path maxSizeMB maxBackups maxAgeDays compress = (\<lambda>c.
    let maxSizeMB = (if maxSizeMB < 0 then 0 else maxSizeMB);
        maxBackups = (if maxBackups < 0 then 0 else maxBackups);
        maxAgeDays = (if maxAgeDays < 0 then 0 else maxAgeDays)
    in c\<lparr>error := \<lparr>Path = path, MaxSizeMB = maxSizeMB, MaxBackups = maxBackups,
                    MaxAgeDays = maxAgeDays, Compress = compress\<rparr>\<rparr>)"

definition WithConsoleForAccess :: "bool \<Rightarrow> Option" where
  "WithConsoleForAccess enable = (\<lambda>c. c\<lparr>consoleStdout := enable\<rparr>)"

definition WithConsoleForError :: "bool \<Rightarrow> Option" where
  "WithConsoleForError enable = (\<lambda>c. c\<lparr>consoleStderr := enable\<rparr>)"

definition WithInitialLevels :: "Level \<Rightarrow> Level \<Rightarrow> Option" where
  "WithInitialLevels accessLvl err = (\<lambda>c. c\<lparr>initialAccessLevel := accessLvl, initialErrorLevel := err\<rparr>)"

definition WithEncoder :: "EncoderConfig \<Rightarrow> Option" where
  "WithEncoder e = (\<lambda>c. c\<lparr>enc := e\<rparr>)"

definition WithZapOptions :: "zapOption list \<Rightarrow> Option" where
  "WithZapOptions opts = (\<lambda>c. c\<lparr>zapOpts := zapOpts c @ opts\<rparr>)"

subsection \<open>\<^verbatim>\<open>New\<close>\<close>

text \<open>The struct literal \<^verbatim>\<open>New\<close> starts from (\<^verbatim>\<open>rotateCfg{}\<close> is the zero value).\<close>

definition initialCfg :: buildCfg where
  "initialCfg =
    \<lparr>access = \<lparr>Path = '''', MaxSizeMB = 0, MaxBackups = 0, MaxAgeDays = 0, Compress = False\<rparr>,
     error = \<lparr>Path = '''', MaxSizeMB = 0, MaxBackups = 0, MaxAgeDays = 0, Compress = False\<rparr>,
     consoleStdout = False,
     consoleStderr = False,
     enc = defaultEncoder,
     zapOpts = [],
     initialAccessLevel = zapcore_InfoLevel,
     initialErrorLevel = zapcore_ErrorLevel\<rparr>"

text \<open>The loop \<^verbatim>\<open>for _, o := range opts { o(&cfg) }\<close>.\<close>

definition applyOptions :: "Option list \<Rightarrow> buildCfg \<Rightarrow> buildCfg" where
  "applyOptions opts cfg = foldl (\<lambda>c opt. opt c) cfg opts"

text \<open>\<^verbatim>\<open>New\<close> returns the pair and its \<^verbatim>\<open>error\<close> result (\<open>None\<close> is \<^verbatim>\<open>nil\<close>).\<close>

definition New :: "Option list \<Rightarrow> Pair \<times> goerror option" where
  "New opts =
    (let cfg = applyOptions opts initialCfg;
         accessLevel = NewAtomicLevelAt (initialAccessLevel cfg);
         errorLevel = NewAtomicLevelAt (initialErrorLevel cfg);
         accessFile = newRotateWriter (access cfg);
         errorFile = newRotateWriter (error cfg);
         accessConsole = (if consoleStdout cfg then Some (AddSync_File Stdout) else None);
         errorConsole = (if consoleStderr cfg then Some (AddSync_File Stderr) else None);
         accessCore = makeCore (enc cfg) (tee accessFile accessConsole) accessLevel;
         errorCore = makeCore (enc cfg) (tee errorFile errorConsole) errorLevel;
         errOpts = [AddCaller, AddStacktrace zapcore_ErrorLevel] @ zapOpts cfg;
         accessL = zap_New accessCore (zapOpts cfg);
         errorL = zap_New errorCore errOpts
     in (\<lparr>Access = Some accessL, Error = Some errorL,
          AccessLevel = accessLevel, ErrorLevel = errorLevel\<rparr>, None))"

subsection \<open>What a destination does when written to and flushed\<close>

text \<open>
  The \<^verbatim>\<open>Write\<close> and \<^verbatim>\<open>Sync\<close> methods of the destinations belong to zapcore, io and
  lumberjack. The devices (files, console streams) are observed through the list of
  \<open>event\<close>s they have received; \<open>faults\<close> says which device fails on a write and which on
  a flush.
\<close>

datatype event = Written WriteSyncer string | Flushed WriteSyncer

record faults =
  writeFault :: "WriteSyncer \<Rightarrow> goerror option"
  syncFault :: "WriteSyncer \<Rightarrow> goerror option"

text \<open>
  Modelled from the spec: the aggregation of two flush or write results by the fan-out
  (\<^verbatim>\<open>multierr.Append\<close>, outside the repository): no failure if neither failed, the one
  failure if one did, both joined if both did.
\<close>

fun multierr_Append :: "goerror option \<Rightarrow> goerror option \<Rightarrow> goerror option" where
  "multierr_Append None r = r"
| "multierr_Append (Some l) None = Some l"
| "multierr_Append (Some l) (Some r) = Some (Joined l r)"

text \<open>
  Modelled from the spec: the \<^verbatim>\<open>Write\<close> method of a destination (zapcore, io and
  lumberjack, outside the repository). The discarding destination succeeds and does
  nothing, a file or console destination hands the bytes to its device, the fan-out
  writes to the first and then to the second and aggregates.
\<close>

fun wsWrite :: "faults \<Rightarrow> WriteSyncer \<Rightarrow> string \<Rightarrow> event list \<Rightarrow> goerror option \<times> event list" where
  "wsWrite f AddSync_Discard p evs = (None, evs)"
| "wsWrite f (AddSync_Lumberjack l) p evs =
     (writeFault f (AddSync_Lumberjack l), evs @ [Written (AddSync_Lumberjack l) p])"
| "wsWrite f (AddSync_File s) p evs =
     (writeFault f (AddSync_File s), evs @ [Written (AddSync_File s) p])"
| "wsWrite f (NewMultiWriteSyncer ws1 ws2) p evs =
     (case wsWrite f ws1 p evs of (e1, evs1) \<Rightarrow>
        (case wsWrite f ws2 p evs1 of (e2, evs2) \<Rightarrow> (multierr_Append e1 e2, evs2)))"

text \<open>
  Modelled from the spec: the \<^verbatim>\<open>Sync\<close> method of a destination (zapcore, outside the
  repository). The discarding destination succeeds and does nothing, a file or console
  destination flushes its device, the fan-out flushes the first and then the second,
  whatever the first reported, and aggregates.
\<close>

fun wsSync :: "faults \<Rightarrow> WriteSyncer \<Rightarrow> event list \<Rightarrow> goerror option \<times> event list" where
  "wsSync f AddSync_Discard evs = (None, evs)"
| "wsSync f (AddSync_Lumberjack l) evs =
     (syncFault f (AddSync_Lumberjack l), evs @ [Flushed (AddSync_Lumberjack l)])"
| "wsSync f (AddSync_File s) evs =
     (syncFault f (AddSync_File s), evs @ [Flushed (AddSync_File s)])"
| "wsSync f (NewMultiWriteSyncer ws1 ws2) evs =
     (case wsSync f ws1 evs of (e1, evs1) \<Rightarrow>
        (case wsSync f ws2 evs1 of (e2, evs2) \<Rightarrow> (multierr_Append e1 e2, evs2)))"

text \<open>Writing a sequence of byte strings, one after the other, with each result.\<close>

fun wsWriteAll :: "faults \<Rightarrow> WriteSyncer \<Rightarrow> string list \<Rightarrow> event list \<Rightarrow> goerror option list \<times> event list" where
  "wsWriteAll f ws [] evs = ([], evs)"
| "wsWriteAll f ws (p # ps) evs =
     (case wsWrite f ws p evs of (e, evs1) \<Rightarrow>
        (case wsWriteAll f ws ps evs1 of (es, evs2) \<Rightarrow> (e # es, evs2)))"

text \<open>The devices behind a destination, in the order in which it reaches them.\<close>

fun devices :: "WriteSyncer \<Rightarrow> WriteSyncer list" where
  "devices AddSync_Discard = []"
| "devices (AddSync_Lumberjack l) = [AddSync_Lumberjack l]"
| "devices (AddSync_File s) = [AddSync_File s]"
| "devices (NewMultiWriteSyncer ws1 ws2) = devices ws1 @ devices ws2"

subsection \<open>Vocabulary of the properties\<close>

text \<open>
  A stand-in for \<^verbatim>\<open>(*zap.Logger).Sync\<close> that records each logger it is asked to flush
  and reports what \<open>outcome\<close> scripts for it.
\<close>

definition scriptedSync :: "(Logger \<Rightarrow> goerror option) \<Rightarrow> Logger \<Rightarrow> Logger list \<Rightarrow> goerror option \<times> Logger list" where
  "scriptedSync outcome l flushed = (outcome l, flushed @ [l])"

text \<open>The flush attempt on a logger field of the pair; there is none on a nil field.\<close>

definition attempt :: "(Logger \<Rightarrow> 'w \<Rightarrow> goerror option \<times> 'w) \<Rightarrow> Logger option \<Rightarrow> 'w \<Rightarrow> goerror option \<times> 'w" where
  "attempt lsync lg w = (case lg of None \<Rightarrow> (None, w) | Some l \<Rightarrow> lsync l w)"

text \<open>
  The \<^verbatim>\<open>Option\<close> values a caller can obtain are the results of the seven constructors of
  \<^verbatim>\<open>options.go\<close> (\<^verbatim>\<open>buildCfg\<close> is unexported); \<open>OptionCall\<close> names such a call and
  \<open>option_of\<close> makes it.
\<close>

datatype OptionCall =
    Call_WithAccessFile string int int int bool
  | Call_WithErrorFile string int int int bool
  | Call_WithConsoleForAccess bool
  | Call_WithConsoleForError bool
  | Call_WithInitialLevels Level Level
  | Call_WithEncoder EncoderConfig
  | Call_WithZapOptions "zapOption list"

fun option_of :: "OptionCall \<Rightarrow> Option" where
  "option_of (Call_WithAccessFile path maxSizeMB maxBackups maxAgeDays compress) =
     WithAccessFile path maxSizeMB maxBackups maxAgeDays compress"
| "option_of (Call_WithErrorFile path maxSizeMB maxBackups maxAgeDays compress) =
     WithErrorFile path maxSizeMB maxBackups maxAgeDays compress"
| "option_of (Call_WithConsoleForAccess enable) = WithConsoleForAccess enable"
| "option_of (Call_WithConsoleForError enable) = WithConsoleForError enable"
| "option_of (Call_WithInitialLevels a e) = WithInitialLevels a e"
| "option_of (Call_WithEncoder e) = WithEncoder e"
| "option_of (Call_WithZapOptions opts) = WithZapOptions opts"

text \<open>The zap options a call supplies.\<close>

fun zapArgs :: "OptionCall \<Rightarrow> zapOption list" where
  "zapArgs (Call_WithZapOptions opts) = opts"
| "zapArgs (Call_WithAccessFile path maxSizeMB maxBackups maxAgeDays compress) = []"
| "zapArgs (Call_WithErrorFile path maxSizeMB maxBackups maxAgeDays compress) = []"
| "zapArgs (Call_WithConsoleForAccess enable) = []"
| "zapArgs (Call_WithConsoleForError enable) = []"
| "zapArgs (Call_WithInitialLevels a e) = []"
| "zapArgs (Call_WithEncoder e) = []"

text \<open>The fields of \<^verbatim>\<open>buildCfg\<close>, and the fields an option call assigns to.\<close>

datatype field =
    F_access | F_error | F_consoleStdout | F_consoleStderr
  | F_enc | F_zapOpts | F_initialAccessLevel | F_initialErrorLevel

fun touches :: "OptionCall \<Rightarrow> field \<Rightarrow> bool" where
  "touches (Call_WithAccessFile path maxSizeMB maxBackups maxAgeDays compress) f = (f = F_access)"
| "touches (Call_WithErrorFile path maxSizeMB maxBackups maxAgeDays compress) f = (f = F_error)"
| "touches (Call_WithConsoleForAccess enable) f = (f = F_consoleStdout)"
| "touches (Call_WithConsoleForError enable) f = (f = F_consoleStderr)"
| "touches (Call_WithInitialLevels a e) f = (f = F_initialAccessLevel \<or> f = F_initialErrorLevel)"
| "touches (Call_WithEncoder e) f = (f = F_enc)"
| "touches (Call_WithZapOptions opts) f = (f = F_zapOpts)"

text \<open>Two configurations have the same value in a field.\<close>

fun sameOn :: "field \<Rightarrow> buildCfg \<Rightarrow> buildCfg \<Rightarrow> bool" where
  "sameOn F_access c d = (access c = access d)"
| "sameOn F_error c d = (error c = error d)"
| "sameOn F_consoleStdout c d = (consoleStdout c = consoleStdout d)"
| "sameOn F_consoleStderr c d = (consoleStderr c = consoleStderr d)"
| "sameOn F_enc c d = (enc c = enc d)"
| "sameOn F_zapOpts c d = (zapOpts c = zapOpts d)"
| "sameOn F_initialAccessLevel c d = (initialAccessLevel c = initialAccessLevel d)"
| "sameOn F_initialErrorLevel c d = (initialErrorLevel c = initialErrorLevel d)"

definition lastTouching :: "field \<Rightarrow> OptionCall list \<Rightarrow> OptionCall option" where
  "lastTouching f cs = List.find (\<lambda>c. touches c f) (rev cs)"

text \<open>
  Last write wins on field \<open>f\<close>: folding the calls \<open>cs\<close> over \<open>c0\<close> leaves in \<open>f\<close> what the
  last call touching \<open>f\<close> alone leaves there, and what \<open>c0\<close> has there when no call touches it.
\<close>

definition lastWriteWins :: "field \<Rightarrow> OptionCall list \<Rightarrow> buildCfg \<Rightarrow> bool" where
  "lastWriteWins f cs c0 =
    (case lastTouching f cs of
       None \<Rightarrow> sameOn f (applyOptions (map option_of cs) c0) c0
     | Some c \<Rightarrow> sameOn f (applyOptions (map option_of cs) c0) (option_of c c0))"

section \<open>Properties\<close>

subsection \<open>Rotation parameters\<close>

text \<open>
  C2. For every path, compress flag and integers \<open>maxSizeMB\<close>, \<open>maxBackups\<close>,
  \<open>maxAgeDays\<close> (negative ones included), \<open>WithAccessFile\<close> stores in the access field,
  and \<open>WithErrorFile\<close> in the error field, a rotation configuration whose three numeric
  fields are the input when it is non-negative and 0 when it is negative, with the path
  and the compress flag as given. The option is a total function with no failure result,
  and \<open>New\<close> with such an option returns no error.
\<close>

theorem C2_rotation_inputs_clamped:
  "access (WithAccessFile path maxSizeMB maxBackups maxAgeDays compress c) =
     \<lparr>Path = path, MaxSizeMB = max 0 maxSizeMB, MaxBackups = max 0 maxBackups,
      MaxAgeDays = max 0 maxAgeDays, Compress = compress\<rparr>
   \<and> error (WithErrorFile path maxSizeMB maxBackups maxAgeDays compress c) =
     \<lparr>Path = path, MaxSizeMB = max 0 maxSizeMB, MaxBackups = max 0 maxBackups,
      MaxAgeDays = max 0 maxAgeDays, Compress = compress\<rparr>
   \<and> MaxSizeMB (access (WithAccessFile path (- 5) maxBackups maxAgeDays compress c)) = 0
   \<and> snd (New [WithAccessFile path maxSizeMB maxBackups maxAgeDays compress]) = None
   \<and> snd (New [WithErrorFile path maxSizeMB maxBackups maxAgeDays compress]) = None"
  by (simp add: WithAccessFile_def WithErrorFile_def New_def Let_def max_def)

subsection \<open>Destinations\<close>

lemma wsWrite_Multi:
  "wsWrite f (NewMultiWriteSyncer ws1 ws2) p evs =
     (multierr_Append (fst (wsWrite f ws1 p evs)) (fst (wsWrite f ws2 p (snd (wsWrite f ws1 p evs)))),
      snd (wsWrite f ws2 p (snd (wsWrite f ws1 p evs))))"
  by (simp split: prod.splits)

lemma wsSync_Multi:
  "wsSync f (NewMultiWriteSyncer ws1 ws2) evs =
     (multierr_Append (fst (wsSync f ws1 evs)) (fst (wsSync f ws2 (snd (wsSync f ws1 evs)))),
      snd (wsSync f ws2 (snd (wsSync f ws1 evs))))"
  by (simp split: prod.splits)

lemma wsWrite_events:
  "snd (wsWrite f ws p evs) = evs @ map (\<lambda>d. Written d p) (devices ws)"
proof (induction ws arbitrary: evs)
  case (NewMultiWriteSyncer ws1 ws2)
  then show ?case by (simp only: wsWrite_Multi snd_conv devices.simps map_append append_assoc)
qed simp_all

lemma wsSync_events:
  "snd (wsSync f ws evs) = evs @ map Flushed (devices ws)"
proof (induction ws arbitrary: evs)
  case (NewMultiWriteSyncer ws1 ws2)
  then show ?case by (simp only: wsSync_Multi snd_conv devices.simps map_append append_assoc)
qed simp_all

lemma wsSync_result:
  "fst (wsSync f ws evs) = fst (wsSync f ws [])"
proof (induction ws arbitrary: evs)
  case (NewMultiWriteSyncer ws1 ws2)
  have "fst (wsSync f ws2 (snd (wsSync f ws1 evs))) = fst (wsSync f ws2 [])"
    by (rule NewMultiWriteSyncer.IH(2))
  moreover have "fst (wsSync f ws2 (snd (wsSync f ws1 [])))  = fst (wsSync f ws2 [])"
    by (rule NewMultiWriteSyncer.IH(2))
  moreover have "fst (wsSync f ws1 evs) = fst (wsSync f ws1 [])"
    by (rule NewMultiWriteSyncer.IH(1))
  ultimately show ?case by (simp only: wsSync_Multi fst_conv)
qed simp_all

lemma wsWriteAll_Discard:
  "wsWriteAll f AddSync_Discard ps evs = (replicate (length ps) None, evs)"
  by (induction ps) simp_all

lemma multierr_Append_None: "multierr_Append a b = None \<longleftrightarrow> a = None \<and> b = None"
  by (cases a; cases b) simp_all

text \<open>
  C6. The fan-out combinator \<open>tee\<close> returns absent when both destinations are absent, the
  present destination itself (no wrapper) when exactly one is present, and the fan-out of
  the two when both are present. A write to the fan-out reaches the devices of the first
  and then those of the second, and so does a flush, whichever of them fail: the events
  do not depend on \<open>f\<close>. The flush of the second starts where the flush of the first
  ended, and the result aggregates the two results: it is no failure exactly when
  neither flush fails.
\<close>

theorem C6_tee:
  "tee None None = None
   \<and> tee None (Some ws2) = Some ws2
   \<and> tee (Some ws1) None = Some ws1
   \<and> tee (Some ws1) (Some ws2) = Some (NewMultiWriteSyncer ws1 ws2)
   \<and> snd (wsWrite f (NewMultiWriteSyncer ws1 ws2) p evs) =
       evs @ map (\<lambda>d. Written d p) (devices ws1) @ map (\<lambda>d. Written d p) (devices ws2)
   \<and> snd (wsSync f (NewMultiWriteSyncer ws1 ws2) evs) =
       evs @ map Flushed (devices ws1) @ map Flushed (devices ws2)
   \<and> snd (wsSync f (NewMultiWriteSyncer ws1 ws2) evs) =
       snd (wsSync f ws2 (snd (wsSync f ws1 evs)))
   \<and> fst (wsSync f (NewMultiWriteSyncer ws1 ws2) evs) =
       multierr_Append (fst (wsSync f ws1 [])) (fst (wsSync f ws2 []))
   \<and> (fst (wsSync f (NewMultiWriteSyncer ws1 ws2) evs) = None) =
       (fst (wsSync f ws1 []) = None \<and> fst (wsSync f ws2 []) = None)"
proof -
  have events: "snd (wsWrite f (NewMultiWriteSyncer ws1 ws2) p evs) =
       evs @ map (\<lambda>d. Written d p) (devices ws1) @ map (\<lambda>d. Written d p) (devices ws2)"
    "snd (wsSync f (NewMultiWriteSyncer ws1 ws2) evs) =
       evs @ map Flushed (devices ws1) @ map Flushed (devices ws2)"
    by (simp_all only: wsWrite_Multi wsSync_Multi wsWrite_events wsSync_events snd_conv append_assoc)
  have "fst (wsSync f (NewMultiWriteSyncer ws1 ws2) evs) =
      multierr_Append (fst (wsSync f ws1 evs)) (fst (wsSync f ws2 (snd (wsSync f ws1 evs))))"
    by (simp only: wsSync_Multi fst_conv)
  also have "\<dots> = multierr_Append (fst (wsSync f ws1 [])) (fst (wsSync f ws2 []))"
    using wsSync_result [of f ws1 evs] wsSync_result [of f ws2 "snd (wsSync f ws1 evs)"]
    by simp
  finally have result: "fst (wsSync f (NewMultiWriteSyncer ws1 ws2) evs) =
      multierr_Append (fst (wsSync f ws1 [])) (fst (wsSync f ws2 []))" .
  show ?thesis
    by (simp only: tee.simps events result multierr_Append_None wsSync_events devices.simps
          map_append append_assoc simp_thms)
qed

text \<open>
  C5. For a rotation configuration with the empty path, \<open>newRotateWriter\<close> returns the
  discarding destination: any sequence of writes succeeds (each result is \<^verbatim>\<open>nil\<close>), a flush
  succeeds, and no device, hence no file, receives anything. For a non-empty path it
  returns the lumberjack destination configured with exactly the given path, maximal
  size, backups, age and compress flag.
\<close>

theorem C5_newRotateWriter:
  "newRotateWriter \<lparr>Path = '''', MaxSizeMB = maxSizeMB, MaxBackups = maxBackups,
                    MaxAgeDays = maxAgeDays, Compress = compress\<rparr> = Some AddSync_Discard
   \<and> wsWriteAll f AddSync_Discard ps evs = (replicate (length ps) None, evs)
   \<and> wsSync f AddSync_Discard evs = (None, evs)
   \<and> newRotateWriter \<lparr>Path = ch # path, MaxSizeMB = maxSizeMB, MaxBackups = maxBackups,
                      MaxAgeDays = maxAgeDays, Compress = compress\<rparr> =
       Some (AddSync_Lumberjack \<lparr>lj_Filename = ch # path, lj_MaxSize = maxSizeMB,
         lj_MaxBackups = maxBackups, lj_MaxAge = maxAgeDays, lj_Compress = compress\<rparr>)"
  by (simp add: newRotateWriter_def wsWriteAll_Discard)

text \<open>
  C7. For every option list, whatever the options do to the configuration (negative
  rotation parameters, empty paths, arbitrary levels), the \<^verbatim>\<open>error\<close> result of \<open>New\<close> is
  \<^verbatim>\<open>nil\<close>.
\<close>

theorem C7_New_no_error: "snd (New opts) = None"
  by (simp add: New_def Let_def)

text \<open>
  C10. \<open>Sync\<close> is defined on every pair, also with a nil \<open>Access\<close> or a nil \<open>Error\<close> logger:
  a nil logger is skipped, so that with both nil \<open>Sync\<close> returns no failure and leaves the
  world as it is, and with one nil it does exactly what flushing the other logger does.
\<close>

theorem C10_Sync_nil_loggers:
  "Sync lsync \<lparr>Access = None, Error = None, AccessLevel = al, ErrorLevel = el\<rparr> w = (None, w)
   \<and> Sync lsync \<lparr>Access = None, Error = Some e, AccessLevel = al, ErrorLevel = el\<rparr> w =
       (map_option (\<lambda>x. \<lparr>errs = [x]\<rparr>) (fst (lsync e w)), snd (lsync e w))
   \<and> Sync lsync \<lparr>Access = Some a, Error = None, AccessLevel = al, ErrorLevel = el\<rparr> w =
       (map_option (\<lambda>x. \<lparr>errs = [x]\<rparr>) (fst (lsync a w)), snd (lsync a w))"
  by (auto simp: Sync_def split: prod.splits option.splits)

text \<open>
  C8. \<open>New\<close> starts from the defaults: empty rotation configurations for both loggers,
  console off for both, the default encoder, access level \<^verbatim>\<open>InfoLevel\<close>, error level
  \<^verbatim>\<open>ErrorLevel\<close> and no extra zap options; the options are applied to this configuration,
  and the level gates of the pair hold the levels of the result. With no option the gates
  hold \<^verbatim>\<open>InfoLevel\<close> and \<^verbatim>\<open>ErrorLevel\<close>, and both loggers write to the discarding
  destination.
\<close>

theorem C8_defaults:
  "access initialCfg = \<lparr>Path = '''', MaxSizeMB = 0, MaxBackups = 0, MaxAgeDays = 0, Compress = False\<rparr>
   \<and> error initialCfg = \<lparr>Path = '''', MaxSizeMB = 0, MaxBackups = 0, MaxAgeDays = 0, Compress = False\<rparr>
   \<and> consoleStdout initialCfg = False
   \<and> consoleStderr initialCfg = False
   \<and> enc initialCfg = defaultEncoder
   \<and> initialAccessLevel initialCfg = zapcore_InfoLevel
   \<and> initialErrorLevel initialCfg = zapcore_ErrorLevel
   \<and> zapOpts initialCfg = []
   \<and> Level_of (AccessLevel (fst (New opts))) = initialAccessLevel (applyOptions opts initialCfg)
   \<and> Level_of (ErrorLevel (fst (New opts))) = initialErrorLevel (applyOptions opts initialCfg)
   \<and> AccessLevel (fst (New [])) = NewAtomicLevelAt zapcore_InfoLevel
   \<and> ErrorLevel (fst (New [])) = NewAtomicLevelAt zapcore_ErrorLevel
   \<and> map_option (\<lambda>l. coreOut (core l)) (Access (fst (New []))) = Some (Some AddSync_Discard)
   \<and> map_option (\<lambda>l. coreOut (core l)) (Error (fst (New []))) = Some (Some AddSync_Discard)"
  by (simp add: New_def Let_def initialCfg_def applyOptions_def newRotateWriter_def makeCore_def zap_New_def)


subsection \<open>Folding the options\<close>

lemma applyOptions_Nil: "applyOptions [] c = c"
  by (simp add: applyOptions_def)

lemma applyOptions_snoc: "applyOptions (os @ [x]) c = x (applyOptions os c)"
  by (simp add: applyOptions_def)

lemmas With_defs =
  WithAccessFile_def WithErrorFile_def WithConsoleForAccess_def WithConsoleForError_def
  WithInitialLevels_def WithEncoder_def WithZapOptions_def

lemma zapOpts_option_of: "zapOpts (option_of x c) = zapOpts c @ zapArgs x"
  by (cases x) (simp_all add: With_defs Let_def)

lemma zapOpts_applyOptions:
  "zapOpts (applyOptions (map option_of cs) c0) = zapOpts c0 @ concat (map zapArgs cs)"
  by (induction cs rule: rev_induct) (simp_all add: applyOptions_Nil applyOptions_snoc zapOpts_option_of)

lemma sameOn_refl: "sameOn f c c"
  by (cases f) simp_all

lemma sameOn_trans: "sameOn f c d \<Longrightarrow> sameOn f d e \<Longrightarrow> sameOn f c e"
  by (cases f) simp_all

lemma option_of_overwrites:
  "touches x f \<Longrightarrow> f \<noteq> F_zapOpts \<Longrightarrow> sameOn f (option_of x c) (option_of x d)"
  by (cases x; cases f) (simp_all add: With_defs Let_def)

lemma option_of_untouched: "\<not> touches x f \<Longrightarrow> sameOn f (option_of x c) c"
  by (cases x; cases f) (simp_all add: With_defs Let_def)

lemma lastTouching_snoc:
  "lastTouching f (cs @ [x]) = (if touches x f then Some x else lastTouching f cs)"
  by (simp add: lastTouching_def)

lemma lastWriteWins_other_fields: "f \<noteq> F_zapOpts \<Longrightarrow> lastWriteWins f cs c0"
proof (induction cs rule: rev_induct)
  case Nil
  then show ?case
    by (simp add: lastWriteWins_def lastTouching_def applyOptions_Nil sameOn_refl)
next
  case (snoc x cs)
  show ?case
  proof (cases "touches x f")
    case True
    with snoc.prems show ?thesis
      by (simp add: lastWriteWins_def lastTouching_snoc applyOptions_snoc option_of_overwrites)
  next
    case False
    have step: "sameOn f (option_of x (applyOptions (map option_of cs) c0)) (applyOptions (map option_of cs) c0)"
      using False by (rule option_of_untouched)
    from snoc.IH [OF snoc.prems] False step show ?thesis
      by (auto simp: lastWriteWins_def lastTouching_snoc applyOptions_snoc
               split: option.splits intro: sameOn_trans)
  qed
qed

text \<open>
  C3 (amended). For every list of option calls, every starting configuration and every
  field other than the extra zap options, the last call touching the field wins. The
  extra zap options are accumulated instead: the field ends as its starting value
  followed by the arguments of all the \<open>WithZapOptions\<close> calls, in order.
\<close>

theorem C3_last_write_wins_except_zapOpts:
  "(f \<noteq> F_zapOpts \<longrightarrow> lastWriteWins f cs c0)
   \<and> zapOpts (applyOptions (map option_of cs) c0) = zapOpts c0 @ concat (map zapArgs cs)"
  by (simp add: lastWriteWins_other_fields zapOpts_applyOptions)

text \<open>
  C3, an instance: of two \<open>WithAccessFile\<close> calls the second decides the access rotation.
\<close>

theorem C3_witness:
  "F_access \<noteq> F_zapOpts
   \<and> lastTouching F_access
       [Call_WithAccessFile ''a.log'' 1 2 3 True, Call_WithConsoleForAccess True,
        Call_WithAccessFile ''b.log'' (- 5) 0 7 False, Call_WithZapOptions [AddCaller]]
     = Some (Call_WithAccessFile ''b.log'' (- 5) 0 7 False)
   \<and> lastWriteWins F_access
       [Call_WithAccessFile ''a.log'' 1 2 3 True, Call_WithConsoleForAccess True,
        Call_WithAccessFile ''b.log'' (- 5) 0 7 False, Call_WithZapOptions [AddCaller]] initialCfg"
  using C3_last_write_wins_except_zapOpts [of F_access
       "[Call_WithAccessFile ''a.log'' 1 2 3 True, Call_WithConsoleForAccess True,
        Call_WithAccessFile ''b.log'' (- 5) 0 7 False, Call_WithZapOptions [AddCaller]]" initialCfg]
  by (simp add: lastTouching_def)

text \<open>
  C3 as stated fails on the extra zap options: after two \<open>WithZapOptions\<close> calls the
  field holds the arguments of both, not those of the last one alone.
\<close>

theorem C3_zapOpts_merge_counterexample:
  "lastTouching F_zapOpts [Call_WithZapOptions [OtherOption 1], Call_WithZapOptions [OtherOption 2]]
     = Some (Call_WithZapOptions [OtherOption 2])
   \<and> zapOpts (applyOptions
        (map option_of [Call_WithZapOptions [OtherOption 1], Call_WithZapOptions [OtherOption 2]])
        initialCfg) = [OtherOption 1, OtherOption 2]
   \<and> zapOpts (option_of (Call_WithZapOptions [OtherOption 2]) initialCfg) = [OtherOption 2]
   \<and> \<not> lastWriteWins F_zapOpts
        [Call_WithZapOptions [OtherOption 1], Call_WithZapOptions [OtherOption 2]] initialCfg"
  by (simp add: lastWriteWins_def lastTouching_def applyOptions_def WithZapOptions_def initialCfg_def)

subsection \<open>The options of the two loggers\<close>

lemma New_options:
  "map_option options (Access (fst (New opts))) = Some (zapOpts (applyOptions opts initialCfg))"
  "map_option options (Error (fst (New opts))) =
     Some ([AddCaller, AddStacktrace zapcore_ErrorLevel] @ zapOpts (applyOptions opts initialCfg))"
  by (simp_all add: New_def Let_def zap_New_def)

lemma zapOpts_initialCfg: "zapOpts initialCfg = []"
  by (simp add: initialCfg_def)

text \<open>
  C4. For every option list the error logger is made with \<^verbatim>\<open>zap.AddCaller()\<close> and
  \<^verbatim>\<open>zap.AddStacktrace(zapcore.ErrorLevel)\<close> as its first two options, followed by the
  extra zap options of the configuration: for option calls, the arguments of the
  \<open>WithZapOptions\<close> calls in order. With no option it is made with exactly these two.
\<close>

theorem C4_error_logger_mandatory_options_first:
  "map_option options (Error (fst (New opts))) =
     Some ([AddCaller, AddStacktrace zapcore_ErrorLevel] @ zapOpts (applyOptions opts initialCfg))
   \<and> map_option options (Error (fst (New (map option_of cs)))) =
     Some ([AddCaller, AddStacktrace zapcore_ErrorLevel] @ concat (map zapArgs cs))
   \<and> map_option options (Error (fst (New []))) =
     Some [AddCaller, AddStacktrace zapcore_ErrorLevel]"
  by (simp add: New_options zapOpts_applyOptions zapOpts_initialCfg applyOptions_Nil)

text \<open>
  C9. The extra zap options are given to both loggers: the access logger is made with
  exactly the accumulated options, without the two mandatory ones, and the error logger
  with the two mandatory ones followed by the same accumulated options.
\<close>

theorem C9_zap_options_on_both_loggers:
  "map_option options (Access (fst (New opts))) = Some (zapOpts (applyOptions opts initialCfg))
   \<and> map_option options (Access (fst (New (map option_of cs)))) = Some (concat (map zapArgs cs))
   \<and> map_option options (Error (fst (New (map option_of cs)))) =
     Some ([AddCaller, AddStacktrace zapcore_ErrorLevel] @ concat (map zapArgs cs))"
  by (simp add: New_options zapOpts_applyOptions zapOpts_initialCfg)

subsection \<open>Flushing the pair\<close>

text \<open>
  C1. For every pair, \<open>Sync\<close> attempts the flush of the access logger and then that of the
  error logger, whatever the first reported: the world after \<open>Sync\<close> is the world after
  both attempts. If neither fails it returns no failure; if exactly one fails it returns
  a failure whose message is that failure's message; if both fail it returns a failure
  with the message \<^verbatim>\<open>multiple sync errors occurred\<close>, and in each case \<^verbatim>\<open>Unwrap\<close> gives the
  underlying failures.
\<close>

theorem C1_Sync_aggregates:
  assumes "attempt lsync (Access p) w = (r1, w1)"
    and "attempt lsync (Error p) w1 = (r2, w2)"
  shows "snd (Sync lsync p w) = w2
    \<and> (r1 = None \<and> r2 = None \<longrightarrow> fst (Sync lsync p w) = None)
    \<and> (\<forall>x. r1 = Some x \<and> r2 = None \<longrightarrow>
          (\<exists>se. fst (Sync lsync p w) = Some se \<and> syncError_Error se = errorMessage x
                \<and> syncError_Unwrap se = [x]))
    \<and> (\<forall>y. r1 = None \<and> r2 = Some y \<longrightarrow>
          (\<exists>se. fst (Sync lsync p w) = Some se \<and> syncError_Error se = errorMessage y
                \<and> syncError_Unwrap se = [y]))
    \<and> (\<forall>x y. r1 = Some x \<and> r2 = Some y \<longrightarrow>
          (\<exists>se. fst (Sync lsync p w) = Some se
                \<and> syncError_Error se = ''multiple sync errors occurred''
                \<and> syncError_Unwrap se = [x, y]))"
  using assms
  by (cases "Access p"; cases "Error p"; cases r1; cases r2)
     (auto simp: attempt_def Sync_def syncError_Error_def syncError_Unwrap_def)

lemma New_Nil_loggers:
  "Access (fst (New [])) = Some (zap_New (makeCore defaultEncoder (Some AddSync_Discard) (NewAtomicLevelAt zapcore_InfoLevel)) [])"
  "Error (fst (New [])) = Some (zap_New (makeCore defaultEncoder (Some AddSync_Discard) (NewAtomicLevelAt zapcore_ErrorLevel)) [AddCaller, AddStacktrace zapcore_ErrorLevel])"
  by (simp_all add: New_def Let_def applyOptions_def initialCfg_def newRotateWriter_def)

text \<open>
  C1 on the pair of \<open>New\<close> with no option, with no flush failing, both failing, only the
  access logger failing and only the error logger failing.
\<close>

theorem C1_witness:
  "Sync (scriptedSync (\<lambda>l. None)) (fst (New [])) [] = (None, map the [Access (fst (New [])), Error (fst (New []))])
   \<and> snd (Sync (scriptedSync (\<lambda>l. Some (GoError ''bad file descriptor''))) (fst (New [])) [])
       = map the [Access (fst (New [])), Error (fst (New []))]
   \<and> map_option syncError_Error
        (fst (Sync (scriptedSync (\<lambda>l. Some (GoError ''bad file descriptor''))) (fst (New [])) []))
       = Some ''multiple sync errors occurred''
   \<and> map_option syncError_Error
        (fst (Sync (scriptedSync (\<lambda>l. if options l = [] then Some (GoError ''invalid argument'') else None))
               (fst (New [])) []))
       = Some ''invalid argument''
   \<and> map_option syncError_Error
        (fst (Sync (scriptedSync (\<lambda>l. if options l = [] then None else Some (GoError ''disk full'')))
               (fst (New [])) []))
       = Some ''disk full''"
proof -
  let ?a = "the (Access (fst (New [])))"
  let ?e = "the (Error (fst (New [])))"
  let ?p = "fst (New [])"
  have oa: "options ?a = []" and oe: "options ?e \<noteq> []"
    by (simp_all add: New_Nil_loggers zap_New_def)
  have att: "attempt (scriptedSync out) (Access ?p) w = (out ?a, w @ [?a])"
    "attempt (scriptedSync out) (Error ?p) w = (out ?e, w @ [?e])" for out w
    by (simp_all add: attempt_def scriptedSync_def New_Nil_loggers)
  have c: "snd (Sync (scriptedSync out) ?p []) = [?a, ?e]
    \<and> (out ?a = None \<and> out ?e = None \<longrightarrow> fst (Sync (scriptedSync out) ?p []) = None)
    \<and> (\<forall>x. out ?a = Some x \<and> out ?e = None \<longrightarrow>
          (\<exists>se. fst (Sync (scriptedSync out) ?p []) = Some se \<and> syncError_Error se = errorMessage x
                \<and> syncError_Unwrap se = [x]))
    \<and> (\<forall>y. out ?a = None \<and> out ?e = Some y \<longrightarrow>
          (\<exists>se. fst (Sync (scriptedSync out) ?p []) = Some se \<and> syncError_Error se = errorMessage y
                \<and> syncError_Unwrap se = [y]))
    \<and> (\<forall>x y. out ?a = Some x \<and> out ?e = Some y \<longrightarrow>
          (\<exists>se. fst (Sync (scriptedSync out) ?p []) = Some se
                \<and> syncError_Error se = ''multiple sync errors occurred''
                \<and> syncError_Unwrap se = [x, y]))" for out
    using C1_Sync_aggregates [OF att(1) att(2), of out "[]"] by simp
  have s1: "Sync (scriptedSync (\<lambda>l. None)) ?p [] = (None, [?a, ?e])"
    using c [of "\<lambda>l. None"] by (simp add: prod_eq_iff)
  have s2: "snd (Sync (scriptedSync (\<lambda>l. Some (GoError ''bad file descriptor''))) ?p []) = [?a, ?e]"
    using c [of "\<lambda>l. Some (GoError ''bad file descriptor'')"] by simp
  have s3: "map_option syncError_Error
        (fst (Sync (scriptedSync (\<lambda>l. Some (GoError ''bad file descriptor''))) ?p []))
       = Some ''multiple sync errors occurred''"
    using c [of "\<lambda>l. Some (GoError ''bad file descriptor'')"] by auto
  have s4: "map_option syncError_Error
        (fst (Sync (scriptedSync (\<lambda>l. if options l = [] then Some (GoError ''invalid argument'') else None)) ?p []))
       = Some ''invalid argument''"
    using c [of "\<lambda>l. if options l = [] then Some (GoError ''invalid argument'') else None"] oa oe by auto
  have s5: "map_option syncError_Error
        (fst (Sync (scriptedSync (\<lambda>l. if options l = [] then None else Some (GoError ''disk full''))) ?p []))
       = Some ''disk full''"
    using c [of "\<lambda>l. if options l = [] then None else Some (GoError ''disk full'')"] oa oe by auto
  from s1 s2 s3 s4 s5 show ?thesis by simp
qed

end
